theory Spec2Isabelle
  imports Complex_Main
begin

section \<open>JavaScript values used by the agent\<close>

text \<open>
  A JavaScript number is a double. The code below only compares numbers and tests them
  for truthiness, and both are exact on the real value a double stands for, so a number
  is a real or \<open>NaN\<close>. Every comparison with \<open>NaN\<close> is false, and \<open>NaN\<close> and \<open>0\<close>
  are the falsy numbers.
\<close>

datatype jsnum = Num real | NaN

fun js_gt :: "jsnum \<Rightarrow> jsnum \<Rightarrow> bool" where
  "js_gt (Num a) (Num b) = (a > b)"
| "js_gt _ _ = False"

fun truthy_num :: "jsnum \<Rightarrow> bool" where
  "truthy_num (Num a) = (a \<noteq> 0)"
| "truthy_num NaN = False"

text \<open>\<^verbatim>\<open>x || 0\<close> for a number that may be \<^verbatim>\<open>undefined\<close> (\<open>None\<close>).\<close>

fun or_zero :: "jsnum option \<Rightarrow> jsnum" where
  "or_zero None = Num 0"
| "or_zero (Some x) = (if truthy_num x then x else Num 0)"

section \<open>JupiterPriceV2Service: the confidence level\<close>

text \<open>
  The token provider's data. \<^verbatim>\<open>tradeData\<close> fields are read through \<^verbatim>\<open>Number(...)\<close>;
  the record holds the number that conversion yields. \<^verbatim>\<open>dexData.pairs[0]?.liquidity?.usd\<close>
  is \<^verbatim>\<open>undefined\<close> when the pair list is empty or a link of the chain is missing.
\<close>

record tradeData =
  price :: jsnum
  volume_24h_usd :: jsnum
  price_change_24h_percent :: jsnum

record liquidity =
  usd :: "jsnum option"

record pair =
  liquidity :: "liquidity option"
  marketCap :: "jsnum option"

record dexScreenerData =
  pairs :: "pair list"

datatype confidenceLevel = low | medium | high

definition first_pair :: "dexScreenerData \<Rightarrow> pair option" where
  "first_pair dexData = (case pairs dexData of [] \<Rightarrow> None | p # _ \<Rightarrow> Some p)"

definition pair_liquidity_usd :: "dexScreenerData \<Rightarrow> jsnum option" where
  "pair_liquidity_usd dexData =
     (case first_pair dexData of
        None \<Rightarrow> None
      | Some p \<Rightarrow> (case liquidity p of None \<Rightarrow> None | Some l \<Rightarrow> usd l))"

definition pair_marketCap :: "dexScreenerData \<Rightarrow> jsnum option" where
  "pair_marketCap dexData =
     (case first_pair dexData of None \<Rightarrow> None | Some p \<Rightarrow> marketCap p)"

definition calculateConfidenceLevel :: "tradeData \<Rightarrow> dexScreenerData \<Rightarrow> confidenceLevel" where
  "calculateConfidenceLevel tradeData dexData =
     (let volume24h = volume_24h_usd tradeData;
          liquidity = or_zero (pair_liquidity_usd dexData)
      in if js_gt volume24h (Num 100000) \<and> js_gt liquidity (Num 50000) then high
         else if js_gt volume24h (Num 10000) \<and> js_gt liquidity (Num 10000) then medium
         else low)"

text \<open>
  The spec's wording of the same classification: each input is first clamped to be
  non-negative (\<^verbatim>\<open>max(0, x)\<close>), then compared with the thresholds.
\<close>

fun clamp_nonneg :: "jsnum \<Rightarrow> jsnum" where
  "clamp_nonneg (Num a) = Num (max 0 a)"
| "clamp_nonneg NaN = NaN"

definition spec_confidenceLevel :: "jsnum \<Rightarrow> jsnum \<Rightarrow> confidenceLevel" where
  "spec_confidenceLevel volume liq =
     (let v = clamp_nonneg volume; l = clamp_nonneg liq
      in if js_gt v (Num 100000) \<and> js_gt l (Num 50000) then high
         else if js_gt v (Num 10000) \<and> js_gt l (Num 10000) then medium
         else low)"

text \<open>
  The spec's normalization of an input: a negative price or volume becomes 0, every other
  value stays.
\<close>

definition normalize_tradeData :: "tradeData \<Rightarrow> tradeData" where
  "normalize_tradeData td =
     td\<lparr>price := clamp_nonneg (price td), volume_24h_usd := clamp_nonneg (volume_24h_usd td)\<rparr>"

text \<open>Inputs with a given volume and a given liquidity of the first pair.\<close>

definition trade_with_volume :: "jsnum \<Rightarrow> jsnum \<Rightarrow> jsnum \<Rightarrow> tradeData" where
  "trade_with_volume p v c = \<lparr>price = p, volume_24h_usd = v, price_change_24h_percent = c\<rparr>"

definition dex_with_liquidity :: "jsnum \<Rightarrow> jsnum option \<Rightarrow> dexScreenerData" where
  "dex_with_liquidity l mc =
     \<lparr>pairs = [\<lparr>liquidity = Some \<lparr>usd = Some l\<rparr>, marketCap = mc\<rparr>]\<rparr>"

section \<open>Thrown values and observable effects\<close>

text \<open>
  A rejected promise or a \<^verbatim>\<open>throw\<close> carries a value: an \<^verbatim>\<open>Error\<close> with its message, a
  \<^verbatim>\<open>TypeError\<close> of the runtime, or \<^verbatim>\<open>undefined\<close> (what \<^verbatim>\<open>throw lastError\<close> throws when
  no attempt was made). Calls to the outside world and log lines are recorded, in order,
  as events. What is written to the console is not recorded.
\<close>

datatype thrown = Error string | TypeError string | Undefined

text \<open>
  \<^verbatim>\<open>CONFIG.SOLANA.TRADING.BASE_AMOUNT * analysis.confidence\<close> is a product of doubles; the
  model keeps the two factors and does not round.
\<close>

datatype amount = Product jsnum jsnum

datatype event =
    Tweet string
  | Sleep int
  | LogInfo string
  | LogSuccess string
  | LogError string "thrown option"
  | LogAttemptFailed int thrown
  | ExecuteTrade string string amount jsnum

section \<open>MemeAgentInfluencer.postTweetWithRetry\<close>

definition baseWaitTime :: int where
  "baseWaitTime = 5000"

text \<open>
  The \<^verbatim>\<open>for\<close> loop of \<^verbatim>\<open>postTweetWithRetry\<close>, from loop variable \<open>i\<close> on. \<open>tweet i\<close> is
  what \<^verbatim>\<open>this.twitter.v2.tweet\<close> does when called in iteration \<open>i\<close>: \<open>None\<close> when it
  resolves, \<open>Some error\<close> when it rejects. The result is the trace of events and either
  the thrown value (\<open>Inl\<close>) or the normal return (\<open>Inr\<close>).
\<close>

function retry_loop ::
  "(int \<Rightarrow> thrown option) \<Rightarrow> string \<Rightarrow> int \<Rightarrow> int \<Rightarrow> thrown
     \<Rightarrow> event list \<times> (thrown + unit)" where
  "retry_loop tweet content retries i lastError =
     (if i < retries then
        (case tweet i of
           None \<Rightarrow> ([Tweet content, LogSuccess ''Tweet posted successfully''], Inr ())
         | Some error \<Rightarrow>
             (let (rest, r) = retry_loop tweet content retries (i + 1) error
              in (Tweet content # LogAttemptFailed (i + 1) error
                    # Sleep (baseWaitTime * (i + 1)) # rest, r)))
      else ([LogError ''Failed to post tweet after multiple attempts:'' (Some lastError)],
            Inl lastError))"
  by pat_completeness auto
termination
  by (relation "measure (\<lambda>(tweet, content, retries, i, lastError). nat (retries - i))") auto

text \<open>
  The parameter \<^verbatim>\<open>retries = 3\<close>: an omitted argument (\<open>None\<close>) is 3. The retry limit is
  taken to be an integer; every caller in the sources omits it.
\<close>

definition retries_or_default :: "int option \<Rightarrow> int" where
  "retries_or_default retries = (case retries of None \<Rightarrow> 3 | Some n \<Rightarrow> n)"

definition postTweetWithRetry ::
  "(int \<Rightarrow> thrown option) \<Rightarrow> string \<Rightarrow> int option \<Rightarrow> event list \<times> (thrown + unit)" where
  "postTweetWithRetry tweet content retries =
     retry_loop tweet content (retries_or_default retries) 0 Undefined"

text \<open>Reading a trace: the attempts made, and the delays that separate two attempts.\<close>

fun is_Tweet :: "event \<Rightarrow> bool" where
  "is_Tweet (Tweet _) = True"
| "is_Tweet _ = False"

definition attempts :: "event list \<Rightarrow> nat" where
  "attempts tr = length (filter is_Tweet tr)"

fun inter_attempt_delays :: "event list \<Rightarrow> int list" where
  "inter_attempt_delays [] = []"
| "inter_attempt_delays (Sleep d # es) =
     (if list_ex is_Tweet es then d # inter_attempt_delays es else inter_attempt_delays es)"
| "inter_attempt_delays (_ # es) = inter_attempt_delays es"

subsection \<open>The callers: postAITweet and the scheduled tweet loop\<close>

text \<open>
  \<^verbatim>\<open>postAITweet\<close> generates the text (\<open>generated\<close> is what \<^verbatim>\<open>generateTweetContent\<close> gives),
  posts it with retries, and logs and rethrows whatever fails.
\<close>

definition postAITweet ::
  "(thrown + string) \<Rightarrow> (int \<Rightarrow> thrown option) \<Rightarrow> event list \<times> (thrown + unit)" where
  "postAITweet generated tweet =
     (case generated of
        Inl error \<Rightarrow>
          ([LogInfo ''Generating AI tweet...'',
            LogError ''Failed to post AI tweet:'' (Some error)], Inl error)
      | Inr content \<Rightarrow>
          (case postTweetWithRetry tweet content None of
             (tr, Inl error) \<Rightarrow>
               (LogInfo ''Generating AI tweet...'' # tr @
                  [LogError ''Failed to post AI tweet:'' (Some error)], Inl error)
           | (tr, Inr _) \<Rightarrow>
               (LogInfo ''Generating AI tweet...'' # tr @
                  [LogSuccess ''AI tweet posted successfully''], Inr ())))"

text \<open>
  One firing of the \<^verbatim>\<open>setInterval\<close> callback of \<^verbatim>\<open>scheduleTweets\<close>. \<open>tick_context\<close> is
  \<open>Inl\<close> when \<^verbatim>\<open>getMarketData\<close> rejects or a \<^verbatim>\<open>toString\<close> on its result throws, and
  \<open>Inr ()\<close> when the tweet context was built. The callback catches everything.
\<close>

record tweet_tick =
  tick_context :: "thrown + unit"
  tick_generated :: "thrown + string"
  tick_tweet :: "int \<Rightarrow> thrown option"

definition scheduleTweets_callback :: "tweet_tick \<Rightarrow> event list" where
  "scheduleTweets_callback t =
     (case tick_context t of
        Inl error \<Rightarrow> [LogError ''Error in automated tweet generation:'' (Some error)]
      | Inr _ \<Rightarrow>
          (case postAITweet (tick_generated t) (tick_tweet t) of
             (tr, Inl error) \<Rightarrow>
               tr @ [LogError ''Error in automated tweet generation:'' (Some error)]
           | (tr, Inr _) \<Rightarrow> tr))"

text \<open>The interval timer runs the callback once per tick, whatever the earlier ticks did.\<close>

fun scheduleTweets :: "tweet_tick list \<Rightarrow> event list" where
  "scheduleTweets [] = []"
| "scheduleTweets (t # ts) = scheduleTweets_callback t @ scheduleTweets ts"

text \<open>A sink that rejects every call.\<close>

definition always_failing :: "int \<Rightarrow> thrown option" where
  "always_failing i = Some (Error ''sink rejected'')"

section \<open>MemeAgentInfluencer: market analysis and the trade gate\<close>

text \<open>
  What \<^verbatim>\<open>this.tradingService.getMarketData\<close> resolves to, as far as \<^verbatim>\<open>analyzeMarket\<close> reads
  it. A field that may be absent is an option. (The fields carry the prefix \<open>md_\<close>; the
  source calls them \<^verbatim>\<open>price\<close>, \<^verbatim>\<open>volume24h\<close>, \<^verbatim>\<open>marketCap\<close>, \<^verbatim>\<open>onChainActivity\<close> and
  \<^verbatim>\<open>volatility\<close>.)
\<close>

type_synonym onChainData = "(string \<times> jsnum) list"

record volatility =
  currentVolatility :: "jsnum option"
  averageVolatility :: "jsnum option"
  adjustmentFactor :: "jsnum option"

record tradingMarketData =
  md_price :: "jsnum option"
  md_volume24h :: "jsnum option"
  md_marketCap :: "jsnum option"
  md_onChainActivity :: "onChainData option"
  md_volatility :: "volatility option"

text \<open>What \<^verbatim>\<open>this.aiService.analyzeMarket\<close> resolves to (fields prefixed \<open>ai_\<close>).\<close>

record aiAnalysis =
  ai_summary :: "string option"
  ai_sentiment :: "string option"
  ai_keyPoints :: "string list option"
  ai_recommendation :: "string option"
  ai_shouldTrade :: "bool option"
  ai_confidence :: "jsnum option"
  ai_action :: "string option"
  ai_reasons :: "string list option"
  ai_riskLevel :: "string option"

record MarketMetrics =
  mm_price :: jsnum
  mm_volume24h :: jsnum
  mm_marketCap :: jsnum
  mm_confidence :: jsnum
  mm_onChainData :: onChainData
  mm_volatility :: jsnum
  momentum :: jsnum
  strength :: jsnum

record MarketAnalysis =
  summary :: string
  sentiment :: string
  keyPoints :: "string list"
  recommendation :: "string option"
  shouldTrade :: bool
  confidence :: jsnum
  action :: string
  reasons :: "string list"
  riskLevel :: string
  metrics :: MarketMetrics

text \<open>\<^verbatim>\<open>x || d\<close> on strings (the empty string is falsy), booleans, arrays and objects.\<close>

fun or_string :: "string option \<Rightarrow> string \<Rightarrow> string" where
  "or_string None d = d"
| "or_string (Some s) d = (if s = [] then d else s)"

fun or_false :: "bool option \<Rightarrow> bool" where
  "or_false None = False"
| "or_false (Some b) = b"

fun or_empty :: "'a list option \<Rightarrow> 'a list" where
  "or_empty None = []"
| "or_empty (Some xs) = xs"

fun or_null :: "string option \<Rightarrow> string option" where
  "or_null None = None"
| "or_null (Some s) = (if s = [] then None else Some s)"

text \<open>\<^verbatim>\<open>marketData.volatility?.field || 0\<close>.\<close>

definition volatility_field ::
  "(volatility \<Rightarrow> jsnum option) \<Rightarrow> tradingMarketData \<Rightarrow> jsnum" where
  "volatility_field field marketData =
     or_zero (case md_volatility marketData of None \<Rightarrow> None | Some v \<Rightarrow> field v)"

text \<open>
  The \<^verbatim>\<open>try\<close> block of \<^verbatim>\<open>analyzeMarket\<close>. \<open>getMarketData\<close> is the outcome of the awaited
  fetch (\<open>Inr None\<close>: it resolved to a falsy value); \<open>aiAnalyze\<close> is the AI service, whose
  promise may reject or resolve to \<^verbatim>\<open>null\<close>/\<^verbatim>\<open>undefined\<close> (\<open>Inr None\<close>), on which the first
  property read throws a \<^verbatim>\<open>TypeError\<close>.
\<close>

definition analyzeMarket_try ::
  "(thrown + tradingMarketData option)
     \<Rightarrow> (tradingMarketData \<Rightarrow> thrown + aiAnalysis option) \<Rightarrow> thrown + MarketAnalysis" where
  "analyzeMarket_try getMarketData aiAnalyze =
     (case getMarketData of
        Inl error \<Rightarrow> Inl error
      | Inr None \<Rightarrow> Inl (Error ''Failed to fetch market data'')
      | Inr (Some marketData) \<Rightarrow>
          (case aiAnalyze marketData of
             Inl error \<Rightarrow> Inl error
           | Inr None \<Rightarrow> Inl (TypeError ''Cannot read properties of undefined'')
           | Inr (Some aiAnalysis) \<Rightarrow>
               Inr \<lparr>summary = or_string (ai_summary aiAnalysis) '''',
                    sentiment = or_string (ai_sentiment aiAnalysis) ''NEUTRAL'',
                    keyPoints = or_empty (ai_keyPoints aiAnalysis),
                    recommendation = or_null (ai_recommendation aiAnalysis),
                    shouldTrade = or_false (ai_shouldTrade aiAnalysis),
                    confidence = or_zero (ai_confidence aiAnalysis),
                    action = or_string (ai_action aiAnalysis) ''HOLD'',
                    reasons = or_empty (ai_reasons aiAnalysis),
                    riskLevel =
                      (case ai_riskLevel aiAnalysis of
                         None \<Rightarrow> ''MEDIUM''
                       | Some r \<Rightarrow> if r = ''LOW'' \<or> r = ''HIGH'' then r else ''MEDIUM''),
                    metrics =
                      \<lparr>mm_price = or_zero (md_price marketData),
                       mm_volume24h = or_zero (md_volume24h marketData),
                       mm_marketCap = or_zero (md_marketCap marketData),
                       mm_confidence = or_zero (ai_confidence aiAnalysis),
                       mm_onChainData = or_empty (md_onChainActivity marketData),
                       mm_volatility = volatility_field currentVolatility marketData,
                       momentum = volatility_field adjustmentFactor marketData,
                       strength = volatility_field averageVolatility marketData\<rparr>\<rparr>))"

text \<open>The object the \<^verbatim>\<open>catch\<close> block returns.\<close>

definition fallback_analysis :: MarketAnalysis where
  "fallback_analysis =
     \<lparr>summary = ''Error analyzing market'',
      sentiment = ''NEUTRAL'',
      keyPoints = [],
      recommendation = None,
      shouldTrade = False,
      confidence = Num 0,
      action = ''HOLD'',
      reasons = [''Error analyzing market''],
      riskLevel = ''MEDIUM'',
      metrics =
        \<lparr>mm_price = Num 0, mm_volume24h = Num 0, mm_marketCap = Num 0, mm_confidence = Num 0,
         mm_onChainData = [], mm_volatility = Num 0, momentum = Num 0, strength = Num 0\<rparr>\<rparr>"

text \<open>
  \<^verbatim>\<open>analyzeMarket\<close>: the \<^verbatim>\<open>try\<close> block, with the \<^verbatim>\<open>catch\<close> around all of it. The outcome is
  still typed as one that could throw (\<open>Inl\<close>), so that not throwing is a property.
\<close>

definition analyzeMarket ::
  "(thrown + tradingMarketData option)
     \<Rightarrow> (tradingMarketData \<Rightarrow> thrown + aiAnalysis option) \<Rightarrow> thrown + MarketAnalysis" where
  "analyzeMarket getMarketData aiAnalyze =
     (case analyzeMarket_try getMarketData aiAnalyze of
        Inl error \<Rightarrow> Inr fallback_analysis
      | Inr analysis \<Rightarrow> Inr analysis)"

text \<open>\<^verbatim>\<open>CONFIG.SOLANA.TRADING\<close>; the configuration module is a parameter of the model.\<close>

record tradingConfig =
  MIN_CONFIDENCE :: jsnum
  BASE_AMOUNT :: jsnum
  SLIPPAGE :: jsnum

definition calculateTradeAmount :: "tradingConfig \<Rightarrow> MarketAnalysis \<Rightarrow> amount" where
  "calculateTradeAmount config analysis = Product (BASE_AMOUNT config) (confidence analysis)"

text \<open>
  \<^verbatim>\<open>executeTrade\<close> hands the trade to the trading service; the event records the call and
  \<open>sink\<close> is what the service's promise does (\<open>Some error\<close>: it rejects).
\<close>

definition executeTrade ::
  "tradingConfig \<Rightarrow> string \<Rightarrow> thrown option \<Rightarrow> MarketAnalysis \<Rightarrow> event list \<times> (thrown + unit)" where
  "executeTrade config tokenAddress sink analysis =
     ([ExecuteTrade (if action analysis = ''BUY'' then ''SOL'' else tokenAddress)
                    (if action analysis = ''BUY'' then tokenAddress else ''SOL'')
                    (calculateTradeAmount config analysis)
                    (SLIPPAGE config)],
      (case sink of None \<Rightarrow> Inr () | Some error \<Rightarrow> Inl error))"

text \<open>One run of \<^verbatim>\<open>monitorMarket\<close>, the body of the market monitoring loop.\<close>

definition monitorMarket ::
  "tradingConfig \<Rightarrow> string \<Rightarrow> (thrown + tradingMarketData option)
     \<Rightarrow> (tradingMarketData \<Rightarrow> thrown + aiAnalysis option) \<Rightarrow> thrown option \<Rightarrow> event list" where
  "monitorMarket tradingConfig tokenAddress getMarketData aiAnalyze sink =
     (case analyzeMarket getMarketData aiAnalyze of
        Inl error \<Rightarrow> [LogError ''Market monitoring error:'' (Some error)]
      | Inr analysis \<Rightarrow>
          (if shouldTrade analysis \<and> js_gt (confidence analysis) (MIN_CONFIDENCE tradingConfig)
           then (case executeTrade tradingConfig tokenAddress sink analysis of
                   (tr, Inl error) \<Rightarrow> tr @ [LogError ''Market monitoring error:'' (Some error)]
                 | (tr, Inr _) \<Rightarrow> tr)
           else []))"

fun is_ExecuteTrade :: "event \<Rightarrow> bool" where
  "is_ExecuteTrade (ExecuteTrade _ _ _ _) = True"
| "is_ExecuteTrade _ = False"

text \<open>\<^verbatim>\<open>a >= b\<close> and \<^verbatim>\<open>a < b\<close> on numbers, false when either side is \<open>NaN\<close>.\<close>

fun js_ge :: "jsnum \<Rightarrow> jsnum \<Rightarrow> bool" where
  "js_ge (Num a) (Num b) = (a \<ge> b)"
| "js_ge _ _ = False"

fun js_lt :: "jsnum \<Rightarrow> jsnum \<Rightarrow> bool" where
  "js_lt (Num a) (Num b) = (a < b)"
| "js_lt _ _ = False"

text \<open>An AI analysis that recommends a trade with the given action and confidence.\<close>

definition ai_says :: "string \<Rightarrow> jsnum \<Rightarrow> aiAnalysis" where
  "ai_says act conf =
     \<lparr>ai_summary = Some ''ok'', ai_sentiment = Some ''BULLISH'', ai_keyPoints = Some [],
      ai_recommendation = None, ai_shouldTrade = Some True, ai_confidence = Some conf,
      ai_action = Some act, ai_reasons = Some [], ai_riskLevel = Some ''LOW''\<rparr>"

text \<open>Market data whose momentum (\<^verbatim>\<open>volatility.adjustmentFactor\<close>) is the given number.\<close>

definition market_with_momentum :: "jsnum \<Rightarrow> tradingMarketData" where
  "market_with_momentum m =
     \<lparr>md_price = Some (Num 1), md_volume24h = Some (Num 150000), md_marketCap = Some (Num 1000000),
      md_onChainActivity = None,
      md_volatility = Some \<lparr>currentVolatility = Some (Num 1), averageVolatility = Some (Num 1),
                            adjustmentFactor = Some m\<rparr>\<rparr>"

definition example_config :: tradingConfig where
  "example_config = \<lparr>MIN_CONFIDENCE = Num (7 / 10), BASE_AMOUNT = Num 1, SLIPPAGE = Num 100\<rparr>"

section \<open>JupiterPriceV2Service.getMarketData and its cache\<close>

text \<open>
  Modelled from the spec: the cache layer behind \<^verbatim>\<open>this.cache\<close> (the injected
  \<^verbatim>\<open>RedisService\<close>, whose code is not among the sources). The spec gives it entries with a
  value and an expiry time, a \<^verbatim>\<open>set(key, value, ttlSeconds)\<close>, and a \<^verbatim>\<open>get\<close> that checks the
  expiry before it returns a hit: a hit strictly before \<open>expiresAt\<close>, a miss after it,
  and never an exception (a failing backing store reads as a miss). At \<open>expiresAt\<close> itself
  the model reads a miss. Times are in seconds. An expired entry stays in the store, so
  that the store knows what was cached earlier.
\<close>

record cacheEntry =
  cached_value :: string
  expiresAt :: nat

type_synonym cache = "string \<rightharpoonup> cacheEntry"

text \<open>
  Modelled from the spec: \<^verbatim>\<open>get(key)\<close> of the cache layer, which is not among the sources;
  \<open>None\<close> is a miss (the code then sees a value that is not a string).
\<close>

definition cache_get :: "cache \<Rightarrow> nat \<Rightarrow> string \<Rightarrow> string option" where
  "cache_get c now key =
     (case c key of
        None \<Rightarrow> None
      | Some entry \<Rightarrow> if now < expiresAt entry then Some (cached_value entry) else None)"

text \<open>
  Modelled from the spec: \<^verbatim>\<open>set(key, value, ttlSeconds)\<close> of the cache layer, which is not
  among the sources; the code passes the time to live as \<^verbatim>\<open>{ expires: CACHE_TTL }\<close>.
\<close>

definition cache_set :: "cache \<Rightarrow> nat \<Rightarrow> string \<Rightarrow> string \<Rightarrow> nat \<Rightarrow> cache" where
  "cache_set c now key v ttlSeconds =
     c(key \<mapsto> \<lparr>cached_value = v, expiresAt = now + ttlSeconds\<rparr>)"

definition CACHE_TTL :: nat where
  "CACHE_TTL = 300"

text \<open>
  The token provider's answer and the object \<^verbatim>\<open>getMarketData\<close> builds from it (fields
  \<^verbatim>\<open>price\<close>, \<^verbatim>\<open>volume24h\<close>, \<^verbatim>\<open>priceChange24h\<close>, \<^verbatim>\<open>marketCap\<close>, here with the prefix \<open>snap_\<close>).
\<close>

record tokenData =
  tradeData :: tradeData
  dexScreenerData :: dexScreenerData

record marketSnapshot =
  snap_price :: jsnum
  snap_volume24h :: jsnum
  snap_priceChange24h :: jsnum
  snap_marketCap :: jsnum

text \<open>
  The service's surroundings: the cache, the clock, the number of calls made to the
  token provider so far, and the log.
\<close>

record service_state =
  cache :: cache
  now :: nat
  upstream_calls :: nat
  service_log :: "event list"

text \<open>
  \<^verbatim>\<open>getMarketData(symbol)\<close>. \<open>JSON_parse\<close> and \<open>JSON_stringify\<close> are the runtime's functions
  (\<open>JSON_parse\<close> may throw); \<open>getProcessedTokenData\<close> is what the token provider's promise
  does if it is awaited. The \<^verbatim>\<open>catch\<close> logs and rethrows.
\<close>

definition getMarketData ::
  "(string \<Rightarrow> thrown + marketSnapshot) \<Rightarrow> (marketSnapshot \<Rightarrow> string) \<Rightarrow> (thrown + tokenData)
     \<Rightarrow> service_state \<Rightarrow> string \<Rightarrow> (thrown + marketSnapshot) \<times> service_state" where
  "getMarketData JSON_parse JSON_stringify getProcessedTokenData st symbol =
     (let cacheKey = ''marketData:'' @ symbol;
          failed = (\<lambda>error s.
            (Inl error,
             s\<lparr>service_log := service_log s @
                  [LogError (''Failed to fetch market data for '' @ symbol @ '':'')
                     (Some error)]\<rparr>))
      in case cache_get (cache st) (now st) cacheKey of
           Some cached \<Rightarrow>
             (case JSON_parse cached of
                Inl error \<Rightarrow> failed error st
              | Inr parsed \<Rightarrow> (Inr parsed, st))
         | None \<Rightarrow>
             (let st1 = st\<lparr>upstream_calls := upstream_calls st + 1\<rparr>
              in case getProcessedTokenData of
                   Inl error \<Rightarrow> failed error st1
                 | Inr tokenData \<Rightarrow>
                     (let tradeData = tradeData tokenData;
                          dexData = dexScreenerData tokenData;
                          marketData =
                            \<lparr>snap_price = price tradeData,
                             snap_volume24h = volume_24h_usd tradeData,
                             snap_priceChange24h = price_change_24h_percent tradeData,
                             snap_marketCap = or_zero (pair_marketCap dexData)\<rparr>
                      in (Inr marketData,
                          st1\<lparr>cache := cache_set (cache st1) (now st1) cacheKey
                                           (JSON_stringify marketData) CACHE_TTL\<rparr>))))"

text \<open>A stand-in for the JSON functions on the four numbers of a snapshot, for examples.\<close>

definition example_stringify :: "marketSnapshot \<Rightarrow> string" where
  "example_stringify m = (if m = \<lparr>snap_price = Num 2, snap_volume24h = Num 500,
      snap_priceChange24h = Num 0, snap_marketCap = Num 0\<rparr> then ''old'' else ''new'')"

definition example_parse :: "string \<Rightarrow> thrown + marketSnapshot" where
  "example_parse s =
     (if s = ''old'' then Inr \<lparr>snap_price = Num 2, snap_volume24h = Num 500,
                               snap_priceChange24h = Num 0, snap_marketCap = Num 0\<rparr>
      else Inl (Error ''Unexpected token''))"

text \<open>
  A state in which a snapshot of ELONA was cached at time 0 (it expired at 300) and the
  clock reads 400, and a state with an empty cache.
\<close>

definition stale_state :: service_state where
  "stale_state =
     \<lparr>cache = [''marketData:ELONA'' \<mapsto> \<lparr>cached_value = ''old'', expiresAt = 300\<rparr>],
      now = 400, upstream_calls = 0, service_log = []\<rparr>"

definition fresh_state :: service_state where
  "fresh_state = stale_state\<lparr>now := 100\<rparr>"

definition negative_token :: tokenData where
  "negative_token =
     \<lparr>tradeData = trade_with_volume (Num (- 1)) (Num (- 5)) (Num 0),
      dexScreenerData = dex_with_liquidity (Num 60000) None\<rparr>"

section \<open>ChatService: the autonomous mode\<close>

text \<open>
  What the two awaited calls of a cycle give. \<^verbatim>\<open>getMarketMetrics()\<close> rejects or resolves
  to a value that is only tested for truthiness (\<open>Inr True\<close>: truthy).
  \<^verbatim>\<open>analyzeMarket(marketData)\<close> rejects, resolves to a falsy value (\<open>Inr None\<close>) or to an
  analysis, of which the cycle reads \<^verbatim>\<open>action\<close>, \<^verbatim>\<open>confidence\<close> (only inside a template
  literal: the field holds its text) and \<^verbatim>\<open>metrics\<close> with \<^verbatim>\<open>confidence\<close> and
  \<^verbatim>\<open>onChainData\<close>.
\<close>

record autoMetrics =
  am_confidence :: "string option"
  am_onChainData :: "onChainData option"

record autoAnalysis =
  auto_action :: string
  auto_confidence_text :: string
  auto_metrics :: "autoMetrics option"

record cycle_io =
  io_marketData :: "thrown + bool"
  io_analysis :: "thrown + autoAnalysis option"

definition executeAutoAction :: "autoAnalysis \<Rightarrow> string" where
  "executeAutoAction analysis =
     ''Executed '' @ auto_action analysis @ '' with confidence '' @ auto_confidence_text analysis"

text \<open>
  The body of the interval callback of \<^verbatim>\<open>startAutoMode\<close>, given what its awaited calls
  give: the lines logged and the messages handed to \<^verbatim>\<open>recordMessage\<close> (role and content).
  Its \<^verbatim>\<open>catch\<close> logs whatever was thrown.
\<close>

definition autoCycle :: "cycle_io \<Rightarrow> event list \<times> (string \<times> string) list" where
  "autoCycle io =
     (let caught = (\<lambda>error. ([LogError ''Error in auto mode:'' (Some error)], []))
      in case io_marketData io of
           Inl error \<Rightarrow> caught error
         | Inr False \<Rightarrow> ([LogError ''Failed to fetch market data'' None], [])
         | Inr True \<Rightarrow>
             (case io_analysis io of
                Inl error \<Rightarrow> caught error
              | Inr None \<Rightarrow> ([LogError ''Failed to analyze market'' None], [])
              | Inr (Some analysis) \<Rightarrow>
                  (case auto_metrics analysis of
                     None \<Rightarrow> ([LogError ''Failed to analyze market'' None], [])
                   | Some m \<Rightarrow>
                       if am_confidence m = None \<or> am_confidence m = Some []
                       then caught (Error ''Market analysis metrics are incomplete'')
                       else if am_onChainData m = None
                       then caught (Error ''Market analysis onChainData is missing'')
                       else (let result = executeAutoAction analysis
                             in ([LogInfo result],
                                 [(''assistant'', ''Executed action: '' @ auto_action analysis),
                                  (''assistant'', ''Result: '' @ result)])))))"

text \<open>
  The service and the part of the runtime it uses: the interval timers that are armed,
  the cycles that were started by a tick and have not run to their end, the messages
  added to the history, and whether \<^verbatim>\<open>process.exit\<close> was called.
\<close>

record chat_state =
  isRunning :: bool
  autoModeInterval :: "nat option"
  timers :: "nat set"
  next_timer :: nat
  in_flight :: "nat list"
  next_cycle :: nat
  history :: "(string \<times> string) list"
  chat_log :: "event list"
  exited :: bool

definition initial_state :: chat_state where
  "initial_state =
     \<lparr>isRunning = False, autoModeInterval = None, timers = {}, next_timer = 0,
      in_flight = [], next_cycle = 0, history = [], chat_log = [], exited = False\<rparr>"

definition clearInterval :: "nat \<Rightarrow> chat_state \<Rightarrow> chat_state" where
  "clearInterval t st = st\<lparr>timers := timers st - {t}\<rparr>"

definition recordMessage :: "string \<Rightarrow> string \<Rightarrow> chat_state \<Rightarrow> chat_state" where
  "recordMessage role content st =
     (if role = ''system'' then st\<lparr>chat_log := chat_log st @ [LogInfo content]\<rparr>
      else st\<lparr>history := history st @ [(role, content)]\<rparr>)"

definition startAutoMode :: "chat_state \<Rightarrow> chat_state" where
  "startAutoMode st =
     (let st1 = st\<lparr>chat_log := chat_log st @ [LogInfo ''Starting autonomous mode...'']\<rparr>;
          st2 = (case autoModeInterval st1 of None \<Rightarrow> st1 | Some t \<Rightarrow> clearInterval t st1);
          t' = next_timer st2
      in st2\<lparr>timers := insert t' (timers st2), next_timer := Suc t',
             autoModeInterval := Some t'\<rparr>)"

text \<open>The listener that \<^verbatim>\<open>setupEventListeners\<close> registers for \<^verbatim>\<open>modeChanged\<close>.\<close>

definition modeChanged :: "string \<Rightarrow> chat_state \<Rightarrow> chat_state" where
  "modeChanged newMode st =
     (if newMode = ''auto'' then startAutoMode st
      else (case autoModeInterval st of
              None \<Rightarrow> st
            | Some t \<Rightarrow> (clearInterval t st)\<lparr>autoModeInterval := None\<rparr>))"

text \<open>The commands \<^verbatim>\<open>pause\<close> and \<^verbatim>\<open>resume\<close> of the auto mode.\<close>

definition pause :: "chat_state \<Rightarrow> chat_state" where
  "pause st =
     (case autoModeInterval st of
        None \<Rightarrow> st
      | Some t \<Rightarrow> (clearInterval t st)\<lparr>autoModeInterval := None\<rparr>)"

definition resume :: "chat_state \<Rightarrow> chat_state" where
  "resume st = (if autoModeInterval st = None then startAutoMode st else st)"

text \<open>
  \<^verbatim>\<open>stop()\<close> clears the timer and ends the process; \<^verbatim>\<open>this.modeManager.stop()\<close> and
  \<^verbatim>\<open>this.readline.close()\<close> are taken to return.
\<close>

definition stop :: "chat_state \<Rightarrow> chat_state" where
  "stop st =
     (let st1 = st\<lparr>isRunning := False\<rparr>;
          st2 = (case autoModeInterval st1 of
                   None \<Rightarrow> st1
                 | Some t \<Rightarrow> (clearInterval t st1)\<lparr>autoModeInterval := None\<rparr>)
      in st2\<lparr>exited := True\<rparr>)"

text \<open>
  A tick of an armed timer calls the callback, which starts a cycle and suspends at its
  first \<^verbatim>\<open>await\<close>; a cleared timer does not tick. When the awaited calls of a cycle have
  given their results, the cycle runs to its end.
\<close>

definition timer_fires :: "nat \<Rightarrow> chat_state \<Rightarrow> chat_state" where
  "timer_fires t st =
     (if t \<in> timers st
      then st\<lparr>in_flight := in_flight st @ [next_cycle st], next_cycle := Suc (next_cycle st)\<rparr>
      else st)"

definition cycle_completes :: "nat \<Rightarrow> cycle_io \<Rightarrow> chat_state \<Rightarrow> chat_state" where
  "cycle_completes c io st =
     (if c \<in> set (in_flight st)
      then (let st1 = st\<lparr>in_flight := removeAll c (in_flight st),
                         chat_log := chat_log st @ fst (autoCycle io)\<rparr>
            in fold (\<lambda>(role, content). recordMessage role content) (snd (autoCycle io)) st1)
      else st)"

datatype chat_event =
    ModeChanged string
  | TimerFires nat
  | CycleCompletes nat cycle_io
  | Pause
  | Resume
  | Stop

text \<open>One event of the event loop; after \<^verbatim>\<open>process.exit\<close> nothing runs.\<close>

definition step :: "chat_event \<Rightarrow> chat_state \<Rightarrow> chat_state" where
  "step ev st =
     (if exited st then st
      else (case ev of
              ModeChanged newMode \<Rightarrow> modeChanged newMode st
            | TimerFires t \<Rightarrow> timer_fires t st
            | CycleCompletes c io \<Rightarrow> cycle_completes c io st
            | Pause \<Rightarrow> pause st
            | Resume \<Rightarrow> resume st
            | Stop \<Rightarrow> stop st))"

fun run :: "chat_event list \<Rightarrow> chat_state \<Rightarrow> chat_state" where
  "run [] st = st"
| "run (ev # evs) st = run evs (step ev st)"

text \<open>A cycle whose awaited calls all succeed, with a complete analysis.\<close>

definition good_io :: cycle_io where
  "good_io =
     \<lparr>io_marketData = Inr True,
      io_analysis = Inr (Some \<lparr>auto_action = ''BUY'', auto_confidence_text = ''0.9'',
        auto_metrics = Some \<lparr>am_confidence = Some ''high'', am_onChainData = Some []\<rparr>\<rparr>)\<rparr>"

text \<open>At most one interval timer is armed, and it is the one the service holds.\<close>

definition one_timer :: "chat_state \<Rightarrow> bool" where
  "one_timer st = (\<forall>t \<in> timers st. autoModeInterval st = Some t)"

section \<open>Properties of the confidence level\<close>

lemma liquidity_of_dex_with_liquidity:
  "or_zero (pair_liquidity_usd (dex_with_liquidity (Num l) mc)) = Num l"
  by (simp add: pair_liquidity_usd_def first_pair_def dex_with_liquidity_def)

lemma calculateConfidenceLevel_on_numbers:
  "calculateConfidenceLevel (trade_with_volume p (Num v) c) (dex_with_liquidity (Num l) mc) =
     (if v > 100000 \<and> l > 50000 then high
      else if v > 10000 \<and> l > 10000 then medium else low)"
  unfolding calculateConfidenceLevel_def Let_def liquidity_of_dex_with_liquidity
  by (simp add: trade_with_volume_def)

text \<open>
  C2. For non-negative volume and liquidity the level is \<open>high\<close> iff volume > 100000 and
  liquidity > 50000; otherwise \<open>medium\<close> iff volume > 10000 and liquidity > 10000;
  otherwise \<open>low\<close>. Volume 150000 with liquidity 60000 gives \<open>high\<close>.
\<close>

theorem calculateConfidenceLevel_thresholds:
  assumes "0 \<le> v" and "0 \<le> l"
  shows "(let lvl = calculateConfidenceLevel (trade_with_volume p (Num v) c)
                      (dex_with_liquidity (Num l) mc)
          in (lvl = high) = (v > 100000 \<and> l > 50000) \<and>
             (lvl = medium) = (\<not> (v > 100000 \<and> l > 50000) \<and> v > 10000 \<and> l > 10000) \<and>
             (lvl = low) = (\<not> (v > 100000 \<and> l > 50000) \<and> \<not> (v > 10000 \<and> l > 10000))) \<and>
         calculateConfidenceLevel (trade_with_volume p (Num 150000) c)
           (dex_with_liquidity (Num 60000) mc) = high"
  unfolding Let_def calculateConfidenceLevel_on_numbers by simp

theorem calculateConfidenceLevel_thresholds_witness:
  "(0::real) \<le> 20000 \<and> (0::real) \<le> 60000 \<and>
   calculateConfidenceLevel (trade_with_volume (Num 1) (Num 20000) (Num 0))
     (dex_with_liquidity (Num 60000) None) = medium"
  using calculateConfidenceLevel_thresholds [of 20000 60000 "Num 1" "Num 0" None]
  by (simp add: Let_def)

section \<open>Properties of the retrying poster\<close>

declare retry_loop.simps [simp del]

lemma list_ex_attempts: "list_ex is_Tweet tr = (0 < attempts tr)"
  by (induction tr) (auto simp: attempts_def)

lemma retry_loop_unfold_fail:
  assumes "i < retries" and "tweet i = Some error"
  shows "retry_loop tweet content retries i lastError =
     (Tweet content # LogAttemptFailed (i + 1) error # Sleep (baseWaitTime * (i + 1))
        # fst (retry_loop tweet content retries (i + 1) error),
      snd (retry_loop tweet content retries (i + 1) error))"
  using assms by (simp add: retry_loop.simps [of _ _ retries i] split: prod.splits)

lemma retry_loop_unfold_ok:
  assumes "i < retries" and "tweet i = None"
  shows "retry_loop tweet content retries i lastError =
     ([Tweet content, LogSuccess ''Tweet posted successfully''], Inr ())"
  using assms by (simp add: retry_loop.simps [of _ _ retries i])

lemma retry_loop_unfold_exit:
  assumes "\<not> i < retries"
  shows "retry_loop tweet content retries i lastError =
     ([LogError ''Failed to post tweet after multiple attempts:'' (Some lastError)],
      Inl lastError)"
  using assms by (simp add: retry_loop.simps [of _ _ retries i])

lemma attempts_Cons [simp]:
  "attempts (e # es) = (if is_Tweet e then Suc (attempts es) else attempts es)"
  by (simp add: attempts_def)

lemma attempts_Nil [simp]: "attempts [] = 0"
  by (simp add: attempts_def)

lemma retry_loop_attempts:
  "attempts (fst (retry_loop tweet content retries i e)) \<le> nat (retries - i)"
proof (induction tweet content retries i e rule: retry_loop.induct)
  case (1 tweet content retries i lastError)
  show ?case
  proof (cases "i < retries")
    case False
    then show ?thesis by (simp add: retry_loop_unfold_exit)
  next
    case True
    show ?thesis
    proof (cases "tweet i")
      case None
      with True show ?thesis by (simp add: retry_loop_unfold_ok)
    next
      case (Some error)
      from "1.IH" [OF True Some]
      have "attempts (fst (retry_loop tweet content retries (i + 1) error))
              \<le> nat (retries - (i + 1))" .
      with True show ?thesis
        by (simp add: retry_loop_unfold_fail [where tweet = tweet and i = i, OF True Some])
    qed
  qed
qed

lemma map_shift_upt:
  "map g [Suc (Suc 0) ..< Suc (Suc m)] = map (\<lambda>k. g (Suc k)) [Suc 0 ..< Suc m]"
proof -
  have "[Suc (Suc 0) ..< Suc (Suc m)] = map Suc [Suc 0 ..< Suc m]"
    by (rule map_Suc_upt [symmetric])
  then show ?thesis by (simp only: map_map o_def)
qed

lemma retry_loop_delays:
  "inter_attempt_delays (fst (retry_loop tweet content retries i e)) =
     map (\<lambda>k. baseWaitTime * (i + int k))
       [1 ..< attempts (fst (retry_loop tweet content retries i e))]"
proof (induction tweet content retries i e rule: retry_loop.induct)
  case (1 tweet content retries i lastError)
  show ?case
  proof (cases "i < retries")
    case False
    then show ?thesis by (simp add: retry_loop_unfold_exit)
  next
    case True
    show ?thesis
    proof (cases "tweet i")
      case None
      with True show ?thesis by (simp add: retry_loop_unfold_ok)
    next
      case (Some error)
      define rest where "rest = fst (retry_loop tweet content retries (i + 1) error)"
      from "1.IH" [OF True Some]
      have ih: "inter_attempt_delays rest =
          map (\<lambda>k. baseWaitTime * (i + 1 + int k)) [Suc 0 ..< attempts rest]"
        by (simp add: rest_def)
      have unf: "fst (retry_loop tweet content retries i lastError) =
          Tweet content # LogAttemptFailed (i + 1) error # Sleep (baseWaitTime * (i + 1)) # rest"
        by (simp add: retry_loop_unfold_fail [where tweet = tweet and i = i, OF True Some] rest_def)
      show ?thesis
      proof (cases "attempts rest")
        case 0
        then show ?thesis unfolding unf using ih
          by (simp add: list_ex_attempts)
      next
        case (Suc m)
        have "map (\<lambda>k. baseWaitTime * (i + int k)) [Suc 0 ..< Suc (Suc m)] =
              baseWaitTime * (i + 1) #
              map (\<lambda>k. baseWaitTime * (i + int k)) [Suc (Suc 0) ..< Suc (Suc m)]"
          by (simp add: upt_conv_Cons del: upt_Suc)
        also have "map (\<lambda>k. baseWaitTime * (i + int k)) [Suc (Suc 0) ..< Suc (Suc m)] =
              map (\<lambda>k. baseWaitTime * (i + 1 + int k)) [Suc 0 ..< Suc m]"
          by (simp only: map_shift_upt) (simp add: algebra_simps del: upt_Suc)
        finally show ?thesis unfolding unf using ih Suc
          by (simp add: list_ex_attempts del: upt_Suc)
      qed
    qed
  qed
qed

lemma sorted_linear_delays:
  "sorted (map (\<lambda>k. baseWaitTime * int k) [a ..< b])"
  by (simp add: sorted_iff_nth_mono baseWaitTime_def)

lemma retry_loop_all_fail:
  assumes "\<forall>k. i \<le> k \<and> k < retries \<longrightarrow> tweet k = Some (err k)"
  shows "attempts (fst (retry_loop tweet content retries i e)) = nat (retries - i) \<and>
         snd (retry_loop tweet content retries i e) =
           Inl (if i < retries then err (retries - 1) else e)"
  using assms
proof (induction tweet content retries i e rule: retry_loop.induct)
  case (1 tweet content retries i lastError)
  show ?case
  proof (cases "i < retries")
    case False
    then show ?thesis by (simp add: retry_loop_unfold_exit)
  next
    case True
    with "1.prems" have f: "tweet i = Some (err i)" by simp
    from "1.prems" have rest: "\<forall>k. i + 1 \<le> k \<and> k < retries \<longrightarrow> tweet k = Some (err k)" by simp
    have cnt: "Suc (nat (retries - (i + 1))) = nat (retries - i)" using True by arith
    note ih = "1.IH" [OF True f rest]
    show ?thesis
    proof (cases "i + 1 < retries")
      case True
      with ih \<open>i < retries\<close> cnt show ?thesis
        by (simp add: retry_loop_unfold_fail [where tweet = tweet and i = i, OF \<open>i < retries\<close> f])
    next
      case False
      with \<open>i < retries\<close> have "retries - 1 = i" by arith
      with ih \<open>i < retries\<close> cnt False show ?thesis
        by (simp add: retry_loop_unfold_fail [where tweet = tweet and i = i, OF \<open>i < retries\<close> f])
    qed
  qed
qed


text \<open>
  C3. With retry limit \<open>N\<close> (3 when omitted) at most \<open>N\<close> attempts are made, the delay
  between attempt \<open>i\<close> and attempt \<open>i + 1\<close> is \<open>baseWaitTime * i\<close> with a base of 5000 ms,
  and so the delays between attempts never decrease.
\<close>

theorem postTweetWithRetry_bounded_linear_backoff:
  "(let tr = fst (postTweetWithRetry tweet content retries)
    in attempts tr \<le> nat (retries_or_default retries) \<and>
       inter_attempt_delays tr = map (\<lambda>i. baseWaitTime * int i) [1 ..< attempts tr] \<and>
       sorted (inter_attempt_delays tr)) \<and>
   retries_or_default None = 3 \<and> baseWaitTime = 5000"
proof -
  define tr where "tr = fst (postTweetWithRetry tweet content retries)"
  have a: "attempts tr \<le> nat (retries_or_default retries)"
    using retry_loop_attempts [of tweet content "retries_or_default retries" 0 Undefined]
    by (simp add: tr_def postTweetWithRetry_def)
  have d: "inter_attempt_delays tr = map (\<lambda>i. baseWaitTime * int i) [1 ..< attempts tr]"
    using retry_loop_delays [of tweet content "retries_or_default retries" 0 Undefined]
    by (simp add: tr_def postTweetWithRetry_def)
  have s: "sorted (inter_attempt_delays tr)"
    unfolding d by (rule sorted_linear_delays)
  from a d s show ?thesis
    by (simp add: Let_def tr_def [symmetric] retries_or_default_def baseWaitTime_def)
qed

text \<open>
  C4, as the spec states it: after \<open>MAX_RETRIES\<close> failed attempts the executor returns a
  FAILED result instead of raising. The code throws: with three failing attempts the
  outcome is the thrown error of the last attempt, not a returned value.
\<close>

theorem postTweetWithRetry_exhausted_counterexample:
  "postTweetWithRetry always_failing ''gm'' (Some 3) =
     ([Tweet ''gm'', LogAttemptFailed 1 (Error ''sink rejected''), Sleep 5000,
       Tweet ''gm'', LogAttemptFailed 2 (Error ''sink rejected''), Sleep 10000,
       Tweet ''gm'', LogAttemptFailed 3 (Error ''sink rejected''), Sleep 15000,
       LogError ''Failed to post tweet after multiple attempts:''
         (Some (Error ''sink rejected''))],
      Inl (Error ''sink rejected''))"
  by (simp add: postTweetWithRetry_def retries_or_default_def retry_loop.simps
        always_failing_def baseWaitTime_def)

text \<open>
  C4, as the code has it: when each of the \<open>N \<ge> 1\<close> attempts fails, exactly \<open>N\<close> attempts
  are made and the error of the last one is thrown to the caller; no result value is
  returned. In the scheduled tweet loop (which uses the default of 3 attempts) the
  interval callback catches that error and logs it, and the loop goes on with the
  following ticks.
\<close>

theorem postTweetWithRetry_exhausted_rethrows:
  assumes "1 \<le> N"
    and "\<forall>k. 0 \<le> k \<and> k < N \<longrightarrow> tweet k = Some (err k)"
  shows "attempts (fst (postTweetWithRetry tweet content (Some N))) = nat N \<and>
         snd (postTweetWithRetry tweet content (Some N)) = Inl (err (N - 1)) \<and>
         (N = 3 \<longrightarrow>
            scheduleTweets
              (\<lparr>tick_context = Inr (), tick_generated = Inr content, tick_tweet = tweet\<rparr> # ts) =
            LogInfo ''Generating AI tweet...'' # fst (postTweetWithRetry tweet content None) @
              [LogError ''Failed to post AI tweet:'' (Some (err 2)),
               LogError ''Error in automated tweet generation:'' (Some (err 2))] @
              scheduleTweets ts)"
proof -
  have all: "attempts (fst (retry_loop tweet content N 0 Undefined)) = nat (N - 0) \<and>
      snd (retry_loop tweet content N 0 Undefined) =
        Inl (if 0 < N then err (N - 1) else Undefined)"
    by (rule retry_loop_all_fail) (use assms(2) in simp)
  have a: "attempts (fst (postTweetWithRetry tweet content (Some N))) = nat N"
    using all by (simp add: postTweetWithRetry_def retries_or_default_def)
  have r: "snd (postTweetWithRetry tweet content (Some N)) = Inl (err (N - 1))"
    using all assms(1) by (simp add: postTweetWithRetry_def retries_or_default_def)
  have t: "scheduleTweets
              (\<lparr>tick_context = Inr (), tick_generated = Inr content, tick_tweet = tweet\<rparr> # ts) =
            LogInfo ''Generating AI tweet...'' # fst (postTweetWithRetry tweet content None) @
              [LogError ''Failed to post AI tweet:'' (Some (err 2)),
               LogError ''Error in automated tweet generation:'' (Some (err 2))] @
              scheduleTweets ts" if "N = 3"
  proof -
    have same: "postTweetWithRetry tweet content None = postTweetWithRetry tweet content (Some N)"
      using that by (simp add: postTweetWithRetry_def retries_or_default_def)
    from r same that have "snd (postTweetWithRetry tweet content None) = Inl (err 2)"
      by simp
    then obtain tr0 where tr: "postTweetWithRetry tweet content None = (tr0, Inl (err 2))"
      by (cases "postTweetWithRetry tweet content None") auto
    show ?thesis
      by (simp add: scheduleTweets_callback_def postAITweet_def tr)
  qed
  from a r t show ?thesis by blast
qed

theorem postTweetWithRetry_exhausted_rethrows_witness:
  "attempts (fst (postTweetWithRetry always_failing ''gm'' (Some 3))) = 3 \<and>
   snd (postTweetWithRetry always_failing ''gm'' (Some 3)) = Inl (Error ''sink rejected'') \<and>
   scheduleTweets
     [\<lparr>tick_context = Inr (), tick_generated = Inr ''gm'', tick_tweet = always_failing\<rparr>,
      \<lparr>tick_context = Inr (), tick_generated = Inr ''gn'', tick_tweet = (\<lambda>i. None)\<rparr>] =
     LogInfo ''Generating AI tweet...'' # fst (postTweetWithRetry always_failing ''gm'' None) @
       [LogError ''Failed to post AI tweet:'' (Some (Error ''sink rejected'')),
        LogError ''Error in automated tweet generation:'' (Some (Error ''sink rejected'')),
        LogInfo ''Generating AI tweet...'', Tweet ''gn'',
        LogSuccess ''Tweet posted successfully'', LogSuccess ''AI tweet posted successfully'']"
  using postTweetWithRetry_exhausted_rethrows
    [of 3 always_failing "\<lambda>k. Error ''sink rejected''" "''gm''"
        "[\<lparr>tick_context = Inr (), tick_generated = Inr ''gn'', tick_tweet = (\<lambda>i. None)\<rparr>]"]
  by (simp add: always_failing_def scheduleTweets_callback_def postAITweet_def
        postTweetWithRetry_def retries_or_default_def retry_loop.simps [of "\<lambda>i. None"])

section \<open>Properties of the market analysis and the trade gate\<close>

lemma analyzeMarket_never_throws: "\<exists>analysis. analyzeMarket g ai = Inr analysis"
  by (simp add: analyzeMarket_def split: sum.splits)

lemma monitorMarket_trade_gate:
  assumes "list_ex is_ExecuteTrade (monitorMarket cfg tok g ai sink)"
  shows "\<exists>analysis. analyzeMarket g ai = Inr analysis \<and> shouldTrade analysis \<and>
           js_gt (confidence analysis) (MIN_CONFIDENCE cfg)"
  using assms
  by (auto simp: monitorMarket_def executeTrade_def split: sum.splits if_splits prod.splits)

lemma js_gt_ge: "js_gt a b \<Longrightarrow> js_ge a b"
  by (cases a; cases b) auto

lemma js_lt_not_gt: "js_lt a b \<Longrightarrow> \<not> js_gt a b"
  by (cases a; cases b) auto

lemma confidence_of_ai_says:
  "analyzeMarket (Inr (Some md)) (\<lambda>_. Inr (Some (ai_says act conf))) = Inr analysis
     \<Longrightarrow> confidence analysis = or_zero (Some conf)"
  by (auto simp: analyzeMarket_def analyzeMarket_try_def ai_says_def)

text \<open>
  C1. In the monitoring loop a trade is executed only if the analysis's confidence is at
  least \<open>MIN_CONFIDENCE\<close>; whenever the confidence is below \<open>MIN_CONFIDENCE\<close> nothing is
  done (no trade sink is contacted), whatever the momentum. With confidence 0.4 and
  \<open>MIN_CONFIDENCE\<close> 0.7 no trade is made for any momentum.
\<close>

theorem monitorMarket_confidence_gate:
  assumes "analyzeMarket g ai = Inr analysis"
  shows "(list_ex is_ExecuteTrade (monitorMarket cfg tok g ai sink)
            \<longrightarrow> js_ge (confidence analysis) (MIN_CONFIDENCE cfg)) \<and>
         (js_lt (confidence analysis) (MIN_CONFIDENCE cfg)
            \<longrightarrow> monitorMarket cfg tok g ai sink = []) \<and>
         monitorMarket example_config tok (Inr (Some (market_with_momentum m)))
           (\<lambda>_. Inr (Some (ai_says act (Num (4 / 10))))) sink = []"
proof (intro conjI impI)
  assume "list_ex is_ExecuteTrade (monitorMarket cfg tok g ai sink)"
  from monitorMarket_trade_gate [OF this] assms
  show "js_ge (confidence analysis) (MIN_CONFIDENCE cfg)" by (auto intro: js_gt_ge)
next
  assume "js_lt (confidence analysis) (MIN_CONFIDENCE cfg)"
  then have "\<not> js_gt (confidence analysis) (MIN_CONFIDENCE cfg)" by (rule js_lt_not_gt)
  with assms show "monitorMarket cfg tok g ai sink = []"
    by (simp add: monitorMarket_def)
next
  show "monitorMarket example_config tok (Inr (Some (market_with_momentum m)))
          (\<lambda>_. Inr (Some (ai_says act (Num (4 / 10))))) sink = []"
    by (simp add: monitorMarket_def analyzeMarket_def analyzeMarket_try_def ai_says_def
          example_config_def)
qed

theorem monitorMarket_confidence_gate_witness:
  "list_ex is_ExecuteTrade
     (monitorMarket example_config ''ELONA'' (Inr (Some (market_with_momentum (Num 1))))
        (\<lambda>_. Inr (Some (ai_says ''BUY'' (Num (9 / 10))))) None) \<and>
   js_ge (Num (9 / 10)) (MIN_CONFIDENCE example_config) \<and>
   js_lt (Num (4 / 10)) (MIN_CONFIDENCE example_config) \<and>
   monitorMarket example_config ''ELONA'' (Inr (Some (market_with_momentum (Num (- 1)))))
     (\<lambda>_. Inr (Some (ai_says ''SELL'' (Num (4 / 10))))) None = []"
proof -
  let ?g = "Inr (Some (market_with_momentum (Num 1)))"
  let ?ai = "\<lambda>_::tradingMarketData. Inr (Some (ai_says ''BUY'' (Num (9 / 10))))"
  let ?g' = "Inr (Some (market_with_momentum (Num (- 1))))"
  let ?ai' = "\<lambda>_::tradingMarketData. Inr (Some (ai_says ''SELL'' (Num (4 / 10))))"
  obtain a where a: "analyzeMarket ?g ?ai = Inr a"
    using analyzeMarket_never_throws by blast
  obtain a' where a': "analyzeMarket ?g' ?ai' = Inr a'"
    using analyzeMarket_never_throws by blast
  have c: "confidence a = Num (9 / 10)"
    using confidence_of_ai_says [OF a] by simp
  have c': "confidence a' = Num (4 / 10)"
    using confidence_of_ai_says [OF a'] by simp
  have t: "list_ex is_ExecuteTrade (monitorMarket example_config ''ELONA'' ?g ?ai None)"
    by (simp add: monitorMarket_def analyzeMarket_def analyzeMarket_try_def ai_says_def
          example_config_def executeTrade_def)
  have l: "js_lt (Num (4 / 10)) (MIN_CONFIDENCE example_config)"
    by (simp add: example_config_def)
  from monitorMarket_confidence_gate [OF a, of example_config "''ELONA''" None] t c
  have 1: "js_ge (Num (9 / 10)) (MIN_CONFIDENCE example_config)" by simp
  from monitorMarket_confidence_gate [OF a', of example_config "''ELONA''" None] l c'
  have 2: "monitorMarket example_config ''ELONA'' ?g' ?ai' None = []" by simp
  from t 1 l 2 show ?thesis by simp
qed

text \<open>
  C10. Whatever is thrown while the market data is fetched or the AI analysis runs,
  \<open>analyzeMarket\<close> does not throw: it returns the fallback analysis, with
  \<open>shouldTrade = False\<close>, confidence 0, action \<open>HOLD\<close>, risk level \<open>MEDIUM\<close> and all-zero
  metrics, and the monitoring loop then makes no trade, whatever the configuration.
\<close>

theorem analyzeMarket_failure_fallback:
  assumes "g = Inl e \<or> g = Inr None \<or>
           (\<exists>md. g = Inr (Some md) \<and> (ai md = Inl e \<or> ai md = Inr None))"
  shows "analyzeMarket g ai = Inr fallback_analysis \<and>
         shouldTrade fallback_analysis = False \<and>
         confidence fallback_analysis = Num 0 \<and>
         action fallback_analysis = ''HOLD'' \<and>
         riskLevel fallback_analysis = ''MEDIUM'' \<and>
         metrics fallback_analysis =
           \<lparr>mm_price = Num 0, mm_volume24h = Num 0, mm_marketCap = Num 0, mm_confidence = Num 0,
            mm_onChainData = [], mm_volatility = Num 0, momentum = Num 0, strength = Num 0\<rparr> \<and>
         monitorMarket cfg tok g ai sink = [] \<and>
         (\<exists>analysis. analyzeMarket g' ai' = Inr analysis)"
proof -
  from assms have f: "analyzeMarket g ai = Inr fallback_analysis"
    by (auto simp: analyzeMarket_def analyzeMarket_try_def)
  have s: "shouldTrade fallback_analysis = False"
    by (simp add: fallback_analysis_def)
  from f s have m: "monitorMarket cfg tok g ai sink = []"
    by (simp add: monitorMarket_def)
  from f s m analyzeMarket_never_throws [of g' ai'] show ?thesis
    by (simp add: fallback_analysis_def)
qed

theorem analyzeMarket_failure_fallback_witness:
  "analyzeMarket (Inl (Error ''rpc down'')) (\<lambda>_. Inr (Some (ai_says ''BUY'' (Num 1)))) =
     Inr fallback_analysis \<and>
   monitorMarket example_config ''ELONA'' (Inl (Error ''rpc down''))
     (\<lambda>_. Inr (Some (ai_says ''BUY'' (Num 1)))) None = []"
  using analyzeMarket_failure_fallback
    [of "Inl (Error ''rpc down'')" "Error ''rpc down''"
        "\<lambda>_. Inr (Some (ai_says ''BUY'' (Num 1)))" example_config "''ELONA''" None]
  by simp

section \<open>Properties of getMarketData\<close>

lemma getMarketData_hit:
  assumes "cache_get (cache st) (now st) (''marketData:'' @ symbol) = Some cached"
  shows "fst (getMarketData P S up st symbol) = P cached"
    and "upstream_calls (snd (getMarketData P S up st symbol)) = upstream_calls st"
    and "cache (snd (getMarketData P S up st symbol)) = cache st"
  using assms by (simp_all add: getMarketData_def Let_def split: sum.splits)

lemma getMarketData_miss:
  assumes "cache_get (cache st) (now st) (''marketData:'' @ symbol) = None"
    and "up = Inr tokenData"
  shows "getMarketData P S up st symbol =
     (let m = \<lparr>snap_price = price (tradeData tokenData),
               snap_volume24h = volume_24h_usd (tradeData tokenData),
               snap_priceChange24h = price_change_24h_percent (tradeData tokenData),
               snap_marketCap = or_zero (pair_marketCap (dexScreenerData tokenData))\<rparr>
      in (Inr m,
          st\<lparr>upstream_calls := upstream_calls st + 1,
             cache := (cache st)(''marketData:'' @ symbol \<mapsto>
                         \<lparr>cached_value = S m, expiresAt = now st + 300\<rparr>)\<rparr>))"
  using assms by (simp add: getMarketData_def Let_def cache_set_def CACHE_TTL_def)

lemma getMarketData_miss_fail:
  assumes "cache_get (cache st) (now st) (''marketData:'' @ symbol) = None"
    and "up = Inl error"
  shows "getMarketData P S up st symbol =
     (Inl error,
      st\<lparr>upstream_calls := upstream_calls st + 1,
         service_log := service_log st @
           [LogError (''Failed to fetch market data for '' @ symbol @ '':'') (Some error)]\<rparr>)"
  using assms by (simp add: getMarketData_def Let_def)

text \<open>
  C8. \<open>getMarketData symbol\<close> reads and writes through the cache: on a hit for the key
  \<open>marketData:<symbol>\<close> it returns the deserialized cached value and does not call the
  token provider; on a miss it fetches, stores the merged result under that key with a
  time to live of 300 seconds (so it is read back until then and no longer), and returns
  it.
\<close>

theorem getMarketData_read_write_through:
  "(cache_get (cache st) (now st) (''marketData:'' @ symbol) = Some cached \<longrightarrow>
      fst (getMarketData P S up st symbol) = P cached \<and>
      upstream_calls (snd (getMarketData P S up st symbol)) = upstream_calls st \<and>
      cache (snd (getMarketData P S up st symbol)) = cache st) \<and>
   (cache_get (cache st) (now st) (''marketData:'' @ symbol) = None \<and> up = Inr tokenData \<longrightarrow>
      (let m = \<lparr>snap_price = price (tradeData tokenData),
                snap_volume24h = volume_24h_usd (tradeData tokenData),
                snap_priceChange24h = price_change_24h_percent (tradeData tokenData),
                snap_marketCap = or_zero (pair_marketCap (dexScreenerData tokenData))\<rparr>;
           st' = snd (getMarketData P S up st symbol)
       in fst (getMarketData P S up st symbol) = Inr m \<and>
          upstream_calls st' = upstream_calls st + 1 \<and>
          cache st' = (cache st)(''marketData:'' @ symbol \<mapsto>
                         \<lparr>cached_value = S m, expiresAt = now st + 300\<rparr>) \<and>
          (\<forall>t. t < now st + 300 \<longrightarrow>
                cache_get (cache st') t (''marketData:'' @ symbol) = Some (S m)) \<and>
          cache_get (cache st') (now st + 300) (''marketData:'' @ symbol) = None))"
proof (intro conjI impI)
  assume h: "cache_get (cache st) (now st) (''marketData:'' @ symbol) = Some cached"
  show "fst (getMarketData P S up st symbol) = P cached" by (rule getMarketData_hit [OF h])
  show "upstream_calls (snd (getMarketData P S up st symbol)) = upstream_calls st"
    by (rule getMarketData_hit [OF h])
  show "cache (snd (getMarketData P S up st symbol)) = cache st"
    by (rule getMarketData_hit [OF h])
next
  assume "cache_get (cache st) (now st) (''marketData:'' @ symbol) = None \<and> up = Inr tokenData"
  then have m: "cache_get (cache st) (now st) (''marketData:'' @ symbol) = None"
    and u: "up = Inr tokenData" by simp_all
  show "let m = \<lparr>snap_price = price (tradeData tokenData),
                snap_volume24h = volume_24h_usd (tradeData tokenData),
                snap_priceChange24h = price_change_24h_percent (tradeData tokenData),
                snap_marketCap = or_zero (pair_marketCap (dexScreenerData tokenData))\<rparr>;
           st' = snd (getMarketData P S up st symbol)
       in fst (getMarketData P S up st symbol) = Inr m \<and>
          upstream_calls st' = upstream_calls st + 1 \<and>
          cache st' = (cache st)(''marketData:'' @ symbol \<mapsto>
                         \<lparr>cached_value = S m, expiresAt = now st + 300\<rparr>) \<and>
          (\<forall>t. t < now st + 300 \<longrightarrow>
                cache_get (cache st') t (''marketData:'' @ symbol) = Some (S m)) \<and>
          cache_get (cache st') (now st + 300) (''marketData:'' @ symbol) = None"
    unfolding getMarketData_miss [OF m u] by (simp add: Let_def cache_get_def)
qed

theorem getMarketData_read_write_through_witness:
  "cache_get (cache fresh_state) (now fresh_state) (''marketData:'' @ ''ELONA'') = Some ''old'' \<and>
   fst (getMarketData example_parse example_stringify (Inl (Error ''upstream down''))
          fresh_state ''ELONA'') = example_parse ''old'' \<and>
   cache_get (cache stale_state) (now stale_state) (''marketData:'' @ ''ELONA'') = None \<and>
   cache_get
     (cache (snd (getMarketData example_parse example_stringify (Inr negative_token)
                    stale_state ''ELONA''))) 699 (''marketData:'' @ ''ELONA'') = Some ''new''"
proof -
  have h: "cache_get (cache fresh_state) (now fresh_state) (''marketData:'' @ ''ELONA'') = Some ''old''"
    by (simp add: fresh_state_def stale_state_def cache_get_def)
  have m: "cache_get (cache stale_state) (now stale_state) (''marketData:'' @ ''ELONA'') = None"
    by (simp add: stale_state_def cache_get_def)
  have n: "now stale_state = 400" by (simp add: stale_state_def)
  have s: "example_stringify \<lparr>snap_price = price (tradeData negative_token),
                snap_volume24h = volume_24h_usd (tradeData negative_token),
                snap_priceChange24h = price_change_24h_percent (tradeData negative_token),
                snap_marketCap = or_zero (pair_marketCap (dexScreenerData negative_token))\<rparr> = ''new''"
    by (simp add: example_stringify_def negative_token_def trade_with_volume_def)
  from getMarketData_read_write_through
    [of fresh_state "''ELONA''" "''old''" example_parse example_stringify
        "Inl (Error ''upstream down'')"] h
  have 1: "fst (getMarketData example_parse example_stringify (Inl (Error ''upstream down''))
          fresh_state ''ELONA'') = example_parse ''old''" by blast
  from getMarketData_read_write_through
    [of stale_state "''ELONA''" "''old''" example_parse example_stringify
        "Inr negative_token" negative_token] m
  have 2: "cache_get
     (cache (snd (getMarketData example_parse example_stringify (Inr negative_token)
                    stale_state ''ELONA''))) 699 (''marketData:'' @ ''ELONA'') = Some ''new''"
    unfolding Let_def n s by (simp add: cache_get_def)
  from h 1 m 2 show ?thesis by blast
qed

text \<open>
  C7, as the spec states it: when the live fetch fails and a snapshot of the symbol was
  cached earlier, even an expired one, the stale snapshot is returned. In the code the
  expired snapshot (cached at 0, read at 400, within twice the time to live) plays no
  part: the error of the fetch is thrown.
\<close>

theorem getMarketData_stale_counterexample:
  "cache stale_state ''marketData:ELONA'' = Some \<lparr>cached_value = ''old'', expiresAt = 300\<rparr> \<and>
   now stale_state = 400 \<and>
   getMarketData example_parse example_stringify (Inl (Error ''upstream down''))
     stale_state ''ELONA'' =
   (Inl (Error ''upstream down''),
    stale_state\<lparr>upstream_calls := 1,
      service_log := [LogError ''Failed to fetch market data for ELONA:''
                        (Some (Error ''upstream down''))]\<rparr>)"
  by (simp add: getMarketData_def stale_state_def cache_get_def)

text \<open>
  C7, as the code has it: when the cache gives no unexpired entry for the symbol and the
  live fetch fails, \<open>getMarketData\<close> logs the failure (one error line, naming the symbol
  and carrying the error) and throws the error of the fetch to its caller. It leaves the
  cache as it was, whether or not an expired snapshot of the symbol is still stored;
  there is no stale read and no staleness ceiling.
\<close>

theorem getMarketData_fetch_failure_rethrown:
  assumes "cache_get (cache st) (now st) (''marketData:'' @ symbol) = None"
    and "up = Inl error"
  shows "fst (getMarketData P S up st symbol) = Inl error \<and>
         service_log (snd (getMarketData P S up st symbol)) =
           service_log st @
             [LogError (''Failed to fetch market data for '' @ symbol @ '':'') (Some error)] \<and>
         cache (snd (getMarketData P S up st symbol)) = cache st \<and>
         upstream_calls (snd (getMarketData P S up st symbol)) = upstream_calls st + 1"
  by (simp add: getMarketData_miss_fail [OF assms])

theorem getMarketData_fetch_failure_rethrown_witness:
  "cache_get (cache stale_state) (now stale_state) (''marketData:'' @ ''ELONA'') = None \<and>
   fst (getMarketData example_parse example_stringify (Inl (Error ''upstream down''))
          stale_state ''ELONA'') = Inl (Error ''upstream down'') \<and>
   service_log (snd (getMarketData example_parse example_stringify
                       (Inl (Error ''upstream down'')) stale_state ''ELONA'')) =
     [LogError ''Failed to fetch market data for ELONA:'' (Some (Error ''upstream down''))] \<and>
   cache (snd (getMarketData example_parse example_stringify
                 (Inl (Error ''upstream down'')) stale_state ''ELONA'')) = cache stale_state"
proof -
  have m: "cache_get (cache stale_state) (now stale_state) (''marketData:'' @ ''ELONA'') = None"
    by (simp add: stale_state_def cache_get_def)
  have l: "service_log stale_state = []"
    by (simp add: stale_state_def)
  from getMarketData_fetch_failure_rethrown [OF m refl, of example_parse example_stringify] m l
  show ?thesis by simp
qed

section \<open>Negative inputs\<close>

lemma clamp_gt: "0 \<le> t \<Longrightarrow> js_gt (clamp_nonneg x) (Num t) = js_gt x (Num t)"
  by (cases x) auto

lemma calculateConfidenceLevel_refines_clamped:
  "calculateConfidenceLevel td dex =
     spec_confidenceLevel (volume_24h_usd td) (or_zero (pair_liquidity_usd dex))"
  by (simp add: calculateConfidenceLevel_def spec_confidenceLevel_def Let_def clamp_gt)

lemma calculateConfidenceLevel_normalized:
  "calculateConfidenceLevel (normalize_tradeData td) dex = calculateConfidenceLevel td dex"
  by (simp add: calculateConfidenceLevel_def normalize_tradeData_def Let_def clamp_gt)

lemma calculateConfidenceLevel_negative_volume:
  "v \<le> 0 \<Longrightarrow> calculateConfidenceLevel (trade_with_volume p (Num v) c) dex = low"
  by (simp add: calculateConfidenceLevel_def trade_with_volume_def Let_def)

text \<open>
  C9. A negative volume or price classifies exactly as the same input with that value
  set to 0: on every input the code's level is the level of the input normalized first
  (negative price and volume replaced by 0), which is the classification that clamps
  before it compares with the thresholds. A negative volume gives \<open>low\<close>, as a volume of
  zero does; a negative price gives the level that a price of zero gives.
\<close>

theorem negative_inputs_classify_as_zero:
  "calculateConfidenceLevel td dex = calculateConfidenceLevel (normalize_tradeData td) dex \<and>
   calculateConfidenceLevel td dex =
     spec_confidenceLevel (volume_24h_usd td) (or_zero (pair_liquidity_usd dex)) \<and>
   (v < 0 \<longrightarrow>
      normalize_tradeData (trade_with_volume p (Num v) c) =
        trade_with_volume (clamp_nonneg p) (Num 0) c \<and>
      calculateConfidenceLevel (trade_with_volume p (Num v) c) dex =
        calculateConfidenceLevel (trade_with_volume p (Num 0) c) dex \<and>
      calculateConfidenceLevel (trade_with_volume p (Num v) c) dex = low) \<and>
   (pr < 0 \<longrightarrow>
      normalize_tradeData (trade_with_volume (Num pr) w c) =
        trade_with_volume (Num 0) (clamp_nonneg w) c \<and>
      calculateConfidenceLevel (trade_with_volume (Num pr) w c) dex =
        calculateConfidenceLevel (trade_with_volume (Num 0) w c) dex)"
proof -
  have 1: "calculateConfidenceLevel td dex =
      calculateConfidenceLevel (normalize_tradeData td) dex"
    by (simp add: calculateConfidenceLevel_normalized)
  have 2: "calculateConfidenceLevel td dex =
     spec_confidenceLevel (volume_24h_usd td) (or_zero (pair_liquidity_usd dex))"
    by (rule calculateConfidenceLevel_refines_clamped)
  have 3: "normalize_tradeData (trade_with_volume p (Num v) c) =
        trade_with_volume (clamp_nonneg p) (Num 0) c \<and>
      calculateConfidenceLevel (trade_with_volume p (Num v) c) dex =
        calculateConfidenceLevel (trade_with_volume p (Num 0) c) dex \<and>
      calculateConfidenceLevel (trade_with_volume p (Num v) c) dex = low" if "v < 0"
  proof (intro conjI)
    show "normalize_tradeData (trade_with_volume p (Num v) c) =
        trade_with_volume (clamp_nonneg p) (Num 0) c"
      using that by (simp add: normalize_tradeData_def trade_with_volume_def)
    have "calculateConfidenceLevel (trade_with_volume p (Num 0) c) dex = low"
      by (simp add: calculateConfidenceLevel_negative_volume)
    moreover show "calculateConfidenceLevel (trade_with_volume p (Num v) c) dex = low"
      using that by (simp add: calculateConfidenceLevel_negative_volume)
    ultimately show "calculateConfidenceLevel (trade_with_volume p (Num v) c) dex =
        calculateConfidenceLevel (trade_with_volume p (Num 0) c) dex"
      by simp
  qed
  have 4: "normalize_tradeData (trade_with_volume (Num pr) w c) =
        trade_with_volume (Num 0) (clamp_nonneg w) c \<and>
      calculateConfidenceLevel (trade_with_volume (Num pr) w c) dex =
        calculateConfidenceLevel (trade_with_volume (Num 0) w c) dex" if "pr < 0"
    using that
    by (simp add: calculateConfidenceLevel_def normalize_tradeData_def
          trade_with_volume_def max_def)
  from 1 2 3 4 show ?thesis by blast
qed

theorem negative_inputs_classify_as_zero_witness:
  "(- 5 :: real) < 0 \<and> (- 1 :: real) < 0 \<and>
   calculateConfidenceLevel (trade_with_volume (Num (- 1)) (Num (- 5)) (Num 0))
     (dex_with_liquidity (Num 60000) None) = low \<and>
   calculateConfidenceLevel (trade_with_volume (Num (- 1)) (Num 0) (Num 0))
     (dex_with_liquidity (Num 60000) None) = low \<and>
   calculateConfidenceLevel (trade_with_volume (Num (- 1)) (Num 150000) (Num 0))
     (dex_with_liquidity (Num 60000) None) =
   calculateConfidenceLevel (trade_with_volume (Num 0) (Num 150000) (Num 0))
     (dex_with_liquidity (Num 60000) None)"
proof -
  have n: "(- 5 :: real) < 0" and n': "(- 1 :: real) < 0" by simp_all
  from negative_inputs_classify_as_zero
    [of "trade_with_volume (Num (- 1)) (Num (- 5)) (Num 0)"
        "dex_with_liquidity (Num 60000) None" "- 5" "Num (- 1)" "Num 0" "- 1"
        "Num 150000"] n n'
  have "calculateConfidenceLevel (trade_with_volume (Num (- 1)) (Num (- 5)) (Num 0))
          (dex_with_liquidity (Num 60000) None) = low"
    and "calculateConfidenceLevel (trade_with_volume (Num (- 1)) (Num (- 5)) (Num 0))
          (dex_with_liquidity (Num 60000) None) =
        calculateConfidenceLevel (trade_with_volume (Num (- 1)) (Num 0) (Num 0))
          (dex_with_liquidity (Num 60000) None)"
    and "calculateConfidenceLevel (trade_with_volume (Num (- 1)) (Num 150000) (Num 0))
          (dex_with_liquidity (Num 60000) None) =
        calculateConfidenceLevel (trade_with_volume (Num 0) (Num 150000) (Num 0))
          (dex_with_liquidity (Num 60000) None)"
    by blast+
  with n n' show ?thesis by simp
qed

section \<open>Properties of the autonomous mode\<close>

lemma one_timer_initial: "one_timer initial_state"
  by (simp add: one_timer_def initial_state_def)

lemma one_timer_startAutoMode: "one_timer st \<Longrightarrow> one_timer (startAutoMode st)"
  by (auto simp: one_timer_def startAutoMode_def clearInterval_def Let_def split: option.splits)

lemma one_timer_cleared:
  "one_timer st \<Longrightarrow>
   timers (case autoModeInterval st of None \<Rightarrow> st
           | Some t \<Rightarrow> (clearInterval t st)\<lparr>autoModeInterval := None\<rparr>) = {}"
  by (auto simp: one_timer_def clearInterval_def split: option.splits)

lemma recordMessage_keeps:
  "timers (recordMessage role content st) = timers st"
  "autoModeInterval (recordMessage role content st) = autoModeInterval st"
  by (simp_all add: recordMessage_def)

lemma fold_recordMessage_keeps:
  "timers (fold (\<lambda>(role, content). recordMessage role content) msgs st) = timers st \<and>
   autoModeInterval (fold (\<lambda>(role, content). recordMessage role content) msgs st) =
     autoModeInterval st"
  by (induction msgs arbitrary: st) (simp_all add: recordMessage_keeps split: prod.splits)

lemma one_timer_step: "one_timer st \<Longrightarrow> one_timer (step ev st)"
proof (cases "exited st")
  case True
  assume "one_timer st"
  with True show ?thesis by (simp add: step_def)
next
  case False
  assume inv: "one_timer st"
  show ?thesis
  proof (cases ev)
    case (ModeChanged m)
    with False inv show ?thesis
      using one_timer_startAutoMode [OF inv] one_timer_cleared [OF inv]
      by (auto simp: step_def modeChanged_def one_timer_def clearInterval_def
            split: option.splits)
  next
    case (TimerFires t)
    with False inv show ?thesis by (simp add: step_def timer_fires_def one_timer_def)
  next
    case (CycleCompletes c io)
    with False inv show ?thesis
      by (simp add: step_def cycle_completes_def one_timer_def Let_def
            fold_recordMessage_keeps)
  next
    case Pause
    with False inv show ?thesis
      by (auto simp: step_def pause_def one_timer_def clearInterval_def split: option.splits)
  next
    case Resume
    with False inv show ?thesis
      using one_timer_startAutoMode [OF inv] by (simp add: step_def resume_def)
  next
    case Stop
    with False inv show ?thesis
      by (auto simp: step_def stop_def one_timer_def clearInterval_def Let_def
            split: option.splits)
  qed
qed

lemma one_timer_run: "one_timer st \<Longrightarrow> one_timer (run evs st)"
  by (induction evs arbitrary: st) (simp_all add: one_timer_step)

lemma run_exited: "exited st \<Longrightarrow> run evs st = st"
  by (induction evs) (simp_all add: step_def)

lemma stop_exits: "exited (step Stop st)"
  by (simp add: step_def stop_def Let_def split: option.splits)

lemma history_stop: "history (step Stop st) = history st"
  by (simp add: step_def stop_def Let_def clearInterval_def split: option.splits)

lemma fold_recordMessage_history:
  "\<forall>(role, content) \<in> set msgs. role \<noteq> ''system'' \<Longrightarrow>
   history (fold (\<lambda>(role, content). recordMessage role content) msgs st) = history st @ msgs"
  by (induction msgs arbitrary: st) (auto simp: recordMessage_def)

lemma autoCycle_roles: "\<forall>(role, content) \<in> set (snd (autoCycle io)). role \<noteq> ''system''"
  by (auto simp: autoCycle_def Let_def split: sum.splits bool.splits option.splits if_splits)

lemma history_cycle_completes:
  "c \<in> set (in_flight st) \<Longrightarrow>
   history (cycle_completes c io st) = history st @ snd (autoCycle io)"
  using fold_recordMessage_history [OF autoCycle_roles]
  by (simp add: cycle_completes_def Let_def)

text \<open>
  C5, as the spec states it: a tick that fires while a cycle is in flight is skipped, so
  two cycles never run at once. In the code a second tick of the timer, before the first
  cycle has completed, starts a second cycle.
\<close>

theorem ticks_overlap_counterexample:
  "in_flight (run [ModeChanged ''auto'', TimerFires 0, TimerFires 0] initial_state) = [0, 1]"
  by (simp add: step_def modeChanged_def startAutoMode_def timer_fires_def initial_state_def
        Let_def)

text \<open>
  C5, as the code has it: the service keeps at most one interval timer armed (starting
  the auto mode clears the timer it holds), but nothing records that a cycle is in
  flight: every tick of the armed timer starts a new cycle next to the ones still in
  flight and leaves the timer armed; only a cleared timer does nothing.
\<close>

theorem every_tick_starts_a_cycle:
  "(let st = run evs initial_state
    in (\<forall>t \<in> timers st. autoModeInterval st = Some t) \<and>
       (t \<in> timers st \<and> \<not> exited st \<longrightarrow>
          in_flight (step (TimerFires t) st) = in_flight st @ [next_cycle st] \<and>
          timers (step (TimerFires t) st) = timers st) \<and>
       (t \<notin> timers st \<longrightarrow> step (TimerFires t) st = st))"
proof -
  have "one_timer (run evs initial_state)"
    by (rule one_timer_run [OF one_timer_initial])
  then have 1: "\<forall>t \<in> timers (run evs initial_state).
      autoModeInterval (run evs initial_state) = Some t"
    by (simp add: one_timer_def)
  show ?thesis
    unfolding Let_def using 1 by (simp add: step_def timer_fires_def)
qed

theorem every_tick_starts_a_cycle_witness:
  "0 \<in> timers (run [ModeChanged ''auto'', TimerFires 0] initial_state) \<and>
   \<not> exited (run [ModeChanged ''auto'', TimerFires 0] initial_state) \<and>
   in_flight (run [ModeChanged ''auto'', TimerFires 0] initial_state) = [0] \<and>
   in_flight (step (TimerFires 0) (run [ModeChanged ''auto'', TimerFires 0] initial_state)) =
     [0, 1] \<and>
   7 \<notin> timers (run [ModeChanged ''auto'', TimerFires 0] initial_state) \<and>
   in_flight (step (TimerFires 7) (run [ModeChanged ''auto'', TimerFires 0] initial_state)) =
     [0]"
proof -
  let ?st = "run [ModeChanged ''auto'', TimerFires 0] initial_state"
  have a: "0 \<in> timers ?st" and b: "\<not> exited ?st" and c: "in_flight ?st = [0]"
    and d: "next_cycle ?st = 1" and e: "7 \<notin> timers ?st"
    by (simp_all add: step_def modeChanged_def startAutoMode_def timer_fires_def
          initial_state_def Let_def)
  from every_tick_starts_a_cycle [of "[ModeChanged ''auto'', TimerFires 0]" 0] a b
  have 1: "in_flight (step (TimerFires 0) ?st) = in_flight ?st @ [next_cycle ?st]"
    unfolding Let_def by blast
  from every_tick_starts_a_cycle [of "[ModeChanged ''auto'', TimerFires 0]" 7] e
  have 2: "step (TimerFires 7) ?st = ?st"
    unfolding Let_def by blast
  from a b c d e 1 2 show ?thesis by simp
qed

text \<open>
  C6, as the spec states it: after a transition away from the auto mode the result of a
  cycle that began before it and completes after it is discarded. In the code the cycle
  started by the tick records its messages although the mode changed to chat meanwhile.
\<close>

theorem stale_cycle_recorded_counterexample:
  "history (run [ModeChanged ''auto'', TimerFires 0, ModeChanged ''chat'',
                 CycleCompletes 0 good_io] initial_state) =
     [(''assistant'', ''Executed action: BUY''),
      (''assistant'', ''Result: Executed BUY with confidence 0.9'')]"
  by (simp add: step_def modeChanged_def startAutoMode_def timer_fires_def initial_state_def
        Let_def cycle_completes_def clearInterval_def autoCycle_def good_io_def
        executeAutoAction_def recordMessage_def)

text \<open>
  C6, as the code has it: \<open>stop()\<close> ends the process, so nothing is recorded after it. A
  transition away from the auto mode clears the interval timer, so no tick starts a new
  cycle after it; but there is no epoch, and a cycle that was in flight at the transition
  and completes after it records its messages as it would have without the transition.
\<close>

theorem in_flight_cycle_after_transition:
  "history (run evs' (step Stop st')) = history st' \<and>
   (let st = run evs initial_state
    in m \<noteq> ''auto'' \<and> \<not> exited st \<longrightarrow>
         timers (step (ModeChanged m) st) = {} \<and>
         step (TimerFires t) (step (ModeChanged m) st) = step (ModeChanged m) st \<and>
         (c \<in> set (in_flight st) \<longrightarrow>
            history (step (CycleCompletes c io) (step (ModeChanged m) st)) =
              history st @ snd (autoCycle io)))"
proof -
  have 1: "history (run evs' (step Stop st')) = history st'"
    by (simp add: run_exited [OF stop_exits] history_stop)
  define s where "s = run evs initial_state"
  have inv: "one_timer s"
    unfolding s_def by (rule one_timer_run [OF one_timer_initial])
  have 2: "timers (step (ModeChanged m) s) = {} \<and>
         step (TimerFires t) (step (ModeChanged m) s) = step (ModeChanged m) s \<and>
         (c \<in> set (in_flight s) \<longrightarrow>
            history (step (CycleCompletes c io) (step (ModeChanged m) s)) =
              history s @ snd (autoCycle io))"
    if m: "m \<noteq> ''auto''" and e: "\<not> exited s"
  proof -
    have st: "step (ModeChanged m) s =
        (case autoModeInterval s of None \<Rightarrow> s
         | Some t \<Rightarrow> (clearInterval t s)\<lparr>autoModeInterval := None\<rparr>)"
      using m e by (simp add: step_def modeChanged_def)
    have t0: "timers (step (ModeChanged m) s) = {}"
      unfolding st by (rule one_timer_cleared [OF inv])
    have ex: "\<not> exited (step (ModeChanged m) s)"
      unfolding st using e by (simp add: clearInterval_def split: option.splits)
    have fl: "in_flight (step (ModeChanged m) s) = in_flight s"
      unfolding st by (simp add: clearInterval_def split: option.splits)
    have hi: "history (step (ModeChanged m) s) = history s"
      unfolding st by (simp add: clearInterval_def split: option.splits)
    have a: "step (TimerFires t) (step (ModeChanged m) s) = step (ModeChanged m) s"
      using t0 by (simp add: step_def [of "TimerFires t"] timer_fires_def)
    have b: "history (step (CycleCompletes c io) (step (ModeChanged m) s)) =
              history s @ snd (autoCycle io)" if "c \<in> set (in_flight s)"
      using that ex fl hi history_cycle_completes [of c "step (ModeChanged m) s" io]
      by (simp add: step_def [of "CycleCompletes c io"])
    from t0 a b show ?thesis by blast
  qed
  from 1 2 show ?thesis unfolding Let_def s_def by blast
qed


theorem in_flight_cycle_after_transition_witness:
  "''chat'' \<noteq> ''auto'' \<and>
   \<not> exited (run [ModeChanged ''auto'', TimerFires 0] initial_state) \<and>
   0 \<in> set (in_flight (run [ModeChanged ''auto'', TimerFires 0] initial_state)) \<and>
   history (step (CycleCompletes 0 good_io)
              (step (ModeChanged ''chat'')
                 (run [ModeChanged ''auto'', TimerFires 0] initial_state))) =
     [(''assistant'', ''Executed action: BUY''),
      (''assistant'', ''Result: Executed BUY with confidence 0.9'')]"
proof -
  let ?st = "run [ModeChanged ''auto'', TimerFires 0] initial_state"
  have a: "''chat'' \<noteq> ''auto''" by simp
  have b: "\<not> exited ?st" and c: "0 \<in> set (in_flight ?st)" and h: "history ?st = []"
    by (simp_all add: step_def modeChanged_def startAutoMode_def timer_fires_def
          initial_state_def Let_def)
  have g: "snd (autoCycle good_io) =
     [(''assistant'', ''Executed action: BUY''),
      (''assistant'', ''Result: Executed BUY with confidence 0.9'')]"
    by (simp add: autoCycle_def good_io_def executeAutoAction_def Let_def)
  from in_flight_cycle_after_transition
    [of "[]" initial_state "[ModeChanged ''auto'', TimerFires 0]" "''chat''" 0 0 good_io]
    a b c
  have "history (step (CycleCompletes 0 good_io) (step (ModeChanged ''chat'') ?st)) =
          history ?st @ snd (autoCycle good_io)"
    unfolding Let_def by blast
  with a b c h g show ?thesis by simp
qed

end
